theory Spec2Isabelle
  imports Main
begin

section \<open>JavaScript values\<close>

text \<open>
  The handlers of \<^verbatim>\<open>server.js\<close> read their inputs from \<^verbatim>\<open>req.body\<close> (parsed
  JSON), \<^verbatim>\<open>req.query\<close> and \<^verbatim>\<open>req.params\<close>. A field that is missing reads as
  \<^verbatim>\<open>undefined\<close>. Strings are sequences of code units below 256 (one \<^typ>\<open>char\<close>
  each); numbers are the integers that a double holds exactly and prints digit by digit
  (magnitude below \<open>2^53\<close>). The entries of an object are listed in the order in which
  \<^verbatim>\<open>Object.entries\<close> enumerates them.
\<close>

datatype json =
    JUndefined
  | JNull
  | JBool bool
  | JNum int
  | JStr string
  | JArr "json list"
  | JObj "(string \<times> json) list"

text \<open>ToBoolean: what \<^verbatim>\<open>if (v)\<close>, \<^verbatim>\<open>!v\<close>, \<^verbatim>\<open>a || b\<close> and \<^verbatim>\<open>a && b\<close> test.\<close>

fun truthy :: "json \<Rightarrow> bool" where
  "truthy JUndefined = False"
| "truthy JNull = False"
| "truthy (JBool b) = b"
| "truthy (JNum n) = (n \<noteq> 0)"
| "truthy (JStr s) = (s \<noteq> [])"
| "truthy (JArr xs) = True"
| "truthy (JObj kvs) = True"

text \<open>\<^verbatim>\<open>a || b\<close>\<close>

definition js_or :: "json \<Rightarrow> json \<Rightarrow> json" where
  "js_or a b = (if truthy a then a else b)"

text \<open>
  \<^verbatim>\<open>a === b\<close> between a value held by the store or by the handler and a value parsed
  from the present request: primitives compare by value, arrays and objects by
  reference, and two values parsed from different requests are never the same object.
\<close>

fun strict_eq :: "json \<Rightarrow> json \<Rightarrow> bool" where
  "strict_eq JUndefined JUndefined = True"
| "strict_eq JNull JNull = True"
| "strict_eq (JBool a) (JBool b) = (a = b)"
| "strict_eq (JNum a) (JNum b) = (a = b)"
| "strict_eq (JStr a) (JStr b) = (a = b)"
| "strict_eq _ _ = False"

text \<open>Decimal digits of a natural number: \<^verbatim>\<open>Date.now().toString()\<close>, array indices.\<close>

definition digit_char :: "nat \<Rightarrow> char" where
  "digit_char d = ''0123456789'' ! d"

fun dec :: "nat \<Rightarrow> string" where
  "dec n = (if n < 10 then [digit_char n] else dec (n div 10) @ [digit_char (n mod 10)])"

declare dec.simps [simp del]

text \<open>ToString, as applied by template literals, \<^verbatim>\<open>+=\<close> on a string and \<^verbatim>\<open>parseInt\<close>.\<close>

fun intercalate :: "string \<Rightarrow> string list \<Rightarrow> string" where
  "intercalate sep [] = []"
| "intercalate sep [x] = x"
| "intercalate sep (x # y # ys) = x @ sep @ intercalate sep (y # ys)"

fun js_String :: "json \<Rightarrow> string" where
  "js_String JUndefined = ''undefined''"
| "js_String JNull = ''null''"
| "js_String (JBool b) = (if b then ''true'' else ''false'')"
| "js_String (JNum n) = (if n < 0 then CHR ''-'' # dec (nat (- n)) else dec (nat n))"
| "js_String (JStr s) = s"
| "js_String (JArr xs) =
     intercalate '','' (map (\<lambda>x. if x = JNull \<or> x = JUndefined then [] else js_String x) xs)"
| "js_String (JObj kvs) = ''[object Object]''"

text \<open>
  \<^verbatim>\<open>JSON.stringify\<close>. A string is quoted, with the quote, the backslash and the
  code units below 32 escaped; \<^verbatim>\<open>undefined\<close> is \<^verbatim>\<open>null\<close> inside an array and is
  left out of an object.
\<close>

definition hex_lower :: "nat \<Rightarrow> char" where
  "hex_lower d = ''0123456789abcdef'' ! d"

definition quote_char :: "char \<Rightarrow> string" where
  "quote_char c =
     (let n = (of_char c :: nat) in
      if n = 8 then [CHR 0x5C, CHR ''b'']
      else if n = 9 then [CHR 0x5C, CHR ''t'']
      else if n = 10 then [CHR 0x5C, CHR ''n'']
      else if n = 12 then [CHR 0x5C, CHR ''f'']
      else if n = 13 then [CHR 0x5C, CHR ''r'']
      else if n = 34 then [CHR 0x5C, CHR 0x22]
      else if n = 92 then [CHR 0x5C, CHR 0x5C]
      else if n < 32 then CHR 0x5C # ''u00'' @ [hex_lower (n div 16), hex_lower (n mod 16)]
      else [c])"

definition quote :: "string \<Rightarrow> string" where
  "quote s = [CHR 0x22] @ concat (map quote_char s) @ [CHR 0x22]"

fun JSON_stringify :: "json \<Rightarrow> string" where
  "JSON_stringify JUndefined = ''undefined''"
| "JSON_stringify JNull = ''null''"
| "JSON_stringify (JBool b) = (if b then ''true'' else ''false'')"
| "JSON_stringify (JNum n) = (if n < 0 then CHR ''-'' # dec (nat (- n)) else dec (nat n))"
| "JSON_stringify (JStr s) = quote s"
| "JSON_stringify (JArr xs) =
     ''['' @ intercalate '',''
               (map (\<lambda>x. if x = JUndefined then ''null'' else JSON_stringify x) xs) @ '']''"
| "JSON_stringify (JObj kvs) =
     ''{'' @ intercalate '',''
               (map (\<lambda>kv. quote (fst kv) @ '':'' @ JSON_stringify (snd kv))
                  (filter (\<lambda>kv. snd kv \<noteq> JUndefined) kvs)) @ ''}''"

text \<open>
  White space and line terminators among the code units below 256: TAB, LF, VT, FF, CR,
  SP and NBSP. \<^verbatim>\<open>String.prototype.trim\<close> strips them at both ends.
\<close>

definition is_ws :: "char \<Rightarrow> bool" where
  "is_ws c = (of_char c \<in> {9, 10, 11, 12, 13, 32, 160 :: nat})"

definition trim :: "string \<Rightarrow> string" where
  "trim s = rev (dropWhile is_ws (rev (dropWhile is_ws s)))"






section \<open>The in-memory store\<close>

text \<open>
  The three module-level arrays \<^verbatim>\<open>memoryHistory\<close>, \<^verbatim>\<open>memoryCollections\<close> and
  \<^verbatim>\<open>memoryCollectionRequests\<close>, used when \<^verbatim>\<open>supabase\<close> is undefined. The field
  \<^verbatim>\<open>created_at\<close> holds the instant (in milliseconds) whose ISO rendering the code stores.
\<close>

record history_item =
  h_id :: string
  h_url :: json
  h_method :: json
  h_headers :: json
  h_body :: json
  h_params :: json
  h_user_id :: json
  h_created_at :: nat

record collection =
  c_id :: string
  c_name :: json
  c_description :: json
  c_user_id :: json
  c_created_at :: nat

record collection_request =
  r_id :: string
  r_collection_id :: string
  r_url :: json
  r_method :: json
  r_headers :: json
  r_body :: json
  r_params :: json
  r_name :: json
  r_created_at :: nat

record store =
  memoryHistory :: "history_item list"
  memoryCollections :: "collection list"
  memoryCollectionRequests :: "collection_request list"

definition empty_store :: store where
  "empty_store = \<lparr>memoryHistory = [], memoryCollections = [], memoryCollectionRequests = []\<rparr>"

text \<open>The two clock reads of an insertion: \<^verbatim>\<open>Date.now()\<close> and \<^verbatim>\<open>new Date()\<close>.\<close>

record clock =
  date_now :: nat
  new_date :: nat

text \<open>The fields a handler destructures from \<^verbatim>\<open>req.body\<close>.\<close>

record request_body =
  b_url :: json
  b_method :: json
  b_headers :: json
  b_body :: json
  b_params :: json
  b_user_id :: json
  b_name :: json
  b_description :: json

text \<open>What a handler sends: the HTTP status and the JSON document.\<close>

datatype 'a reply = Reply (http_status: nat) (sent: 'a)

text \<open>\<^verbatim>\<open>xs.slice(0, n)\<close>: a negative \<open>n\<close> counts from the end.\<close>

definition slice0 :: "int \<Rightarrow> 'a list \<Rightarrow> 'a list" where
  "slice0 n xs = (if n < 0 then take (nat (int (length xs) + n)) xs else take (nat n) xs)"

subsection \<open>History\<close>

text \<open>\<^verbatim>\<open>POST /api/history\<close>, memory branch: the item built from the request.\<close>

definition historyItem :: "clock \<Rightarrow> request_body \<Rightarrow> history_item" where
  "historyItem clk b =
     \<lparr>h_id = dec (date_now clk),
      h_url = b_url b,
      h_method = b_method b,
      h_headers = b_headers b,
      h_body = b_body b,
      h_params = b_params b,
      h_user_id = js_or (b_user_id b) (JStr ''anonymous''),
      h_created_at = new_date clk\<rparr>"

text \<open>\<^verbatim>\<open>memoryHistory.unshift(historyItem); memoryHistory = memoryHistory.slice(0, 100)\<close>\<close>

definition post_history :: "clock \<Rightarrow> request_body \<Rightarrow> store \<Rightarrow> history_item reply \<times> store" where
  "post_history clk b s =
     (let item = historyItem clk b;
          unshifted = item # memoryHistory s
      in (Reply 200 item, s\<lparr>memoryHistory := slice0 100 unshifted\<rparr>))"

text \<open>A sequence of \<^verbatim>\<open>POST /api/history\<close> calls, first call first.\<close>

fun post_history_all :: "(clock \<times> request_body) list \<Rightarrow> store \<Rightarrow> store" where
  "post_history_all [] s = s"
| "post_history_all (c # cs) s = post_history_all cs (snd (post_history (fst c) (snd c) s))"


subsection \<open>Collections\<close>

text \<open>
  \<^verbatim>\<open>POST /api/collections\<close>, memory branch. \<^verbatim>\<open>name.trim()\<close> on a truthy value that is
  not a string throws a TypeError, which the handler's \<^verbatim>\<open>catch\<close> answers with 500.
  \<open>Inl\<close> is the document \<^verbatim>\<open>{ error: message }\<close>.
\<close>

definition collection_of :: "clock \<Rightarrow> request_body \<Rightarrow> collection" where
  "collection_of clk b =
     \<lparr>c_id = dec (date_now clk),
      c_name = b_name b,
      c_description = b_description b,
      c_user_id = js_or (b_user_id b) (JStr ''anonymous''),
      c_created_at = new_date clk\<rparr>"

definition post_collections ::
  "clock \<Rightarrow> request_body \<Rightarrow> store \<Rightarrow> (string + collection) reply \<times> store" where
  "post_collections clk b s =
     (if \<not> truthy (b_name b) then (Reply 400 (Inl ''Collection name is required''), s)
      else case b_name b of
        JStr name \<Rightarrow>
          if trim name = [] then (Reply 400 (Inl ''Collection name is required''), s)
          else (Reply 200 (Inr (collection_of clk b)),
                s\<lparr>memoryCollections := collection_of clk b # memoryCollections s\<rparr>)
      | _ \<Rightarrow> (Reply 500 (Inl ''name.trim is not a function''), s))"

text \<open>\<^verbatim>\<open>GET /api/collections\<close>, memory branch.\<close>

definition get_collections :: "json \<Rightarrow> store \<Rightarrow> collection list reply" where
  "get_collections user_id s =
     (let userId = js_or user_id (JStr ''anonymous'');
          userCollections = filter (\<lambda>item. strict_eq (c_user_id item) userId) (memoryCollections s)
      in Reply 200 userCollections)"


subsection \<open>Collection requests\<close>

text \<open>
  \<^verbatim>\<open>POST /api/collections/:id/requests\<close>, memory branch. \<open>new_URL\<close> stands for
  \<^verbatim>\<open>new URL(url).pathname\<close>: \<open>Inl\<close> the message of the TypeError it throws, \<open>Inr\<close> the
  path. It is only evaluated when \<^verbatim>\<open>name\<close> is falsy.
\<close>

definition request_of :: "clock \<Rightarrow> string \<Rightarrow> request_body \<Rightarrow> json \<Rightarrow> collection_request" where
  "request_of clk ident b name =
     \<lparr>r_id = dec (date_now clk),
      r_collection_id = ident,
      r_url = b_url b,
      r_method = b_method b,
      r_headers = b_headers b,
      r_body = b_body b,
      r_params = b_params b,
      r_name = name,
      r_created_at = new_date clk\<rparr>"

definition post_collection_request ::
  "(json \<Rightarrow> string + string) \<Rightarrow> clock \<Rightarrow> string \<Rightarrow> request_body \<Rightarrow> store
     \<Rightarrow> (string + collection_request) reply \<times> store" where
  "post_collection_request new_URL clk ident b s =
     (case (if truthy (b_name b) then Inr (b_name b)
            else case new_URL (b_url b) of
                   Inl msg \<Rightarrow> Inl msg
                 | Inr pathname \<Rightarrow> Inr (JStr (js_String (b_method b) @ '' '' @ pathname))) of
        Inl msg \<Rightarrow> (Reply 500 (Inl msg), s)
      | Inr name \<Rightarrow>
          (Reply 200 (Inr (request_of clk ident b name)),
           s\<lparr>memoryCollectionRequests := request_of clk ident b name # memoryCollectionRequests s\<rparr>))"

text \<open>\<^verbatim>\<open>GET /api/collections/:id/requests\<close>, memory branch.\<close>

definition get_collection_requests :: "string \<Rightarrow> store \<Rightarrow> collection_request list reply" where
  "get_collection_requests ident s =
     Reply 200 (filter (\<lambda>item. r_collection_id item = ident) (memoryCollectionRequests s))"

subsection \<open>Clearing and counting\<close>

record clear_reply =
  message :: string
  historyCount :: nat
  collectionsCount :: nat

text \<open>
  \<^verbatim>\<open>DELETE /api/clear\<close>. The three assignments run in the order of the source: the
  filter on \<^verbatim>\<open>memoryCollectionRequests\<close> reads the \<^verbatim>\<open>memoryCollections\<close> that the
  assignment before it has produced.
\<close>

definition delete_clear :: "json \<Rightarrow> store \<Rightarrow> clear_reply reply \<times> store" where
  "delete_clear user_id s =
     (let s' =
        (if truthy user_id then
           (let s1 = s\<lparr>memoryHistory :=
                        filter (\<lambda>item. \<not> strict_eq (h_user_id item) user_id) (memoryHistory s)\<rparr>;
                s2 = s1\<lparr>memoryCollections :=
                        filter (\<lambda>item. \<not> strict_eq (c_user_id item) user_id) (memoryCollections s1)\<rparr>
            in s2\<lparr>memoryCollectionRequests :=
                    filter (\<lambda>item.
                              case find (\<lambda>c. c_id c = r_collection_id item) (memoryCollections s2) of
                                None \<Rightarrow> True
                              | Some collection \<Rightarrow> \<not> strict_eq (c_user_id collection) user_id)
                      (memoryCollectionRequests s2)\<rparr>)
         else s\<lparr>memoryHistory := [], memoryCollections := [], memoryCollectionRequests := []\<rparr>)
      in (Reply 200
            \<lparr>message = (if truthy user_id then ''User data cleared'' else ''All data cleared''),
             historyCount = length (memoryHistory s'),
             collectionsCount = length (memoryCollections s')\<rparr>,
          s'))"

record stats =
  st_historyCount :: nat
  st_collectionsCount :: nat
  st_requestsCount :: nat
  st_storageType :: string

text \<open>\<^verbatim>\<open>GET /api/stats\<close> with \<^verbatim>\<open>supabase\<close> undefined.\<close>

definition get_stats :: "json \<Rightarrow> store \<Rightarrow> stats reply" where
  "get_stats user_id s =
     Reply 200
       (if truthy user_id then
          \<lparr>st_historyCount = length (filter (\<lambda>h. strict_eq (h_user_id h) user_id) (memoryHistory s)),
           st_collectionsCount =
             length (filter (\<lambda>c. strict_eq (c_user_id c) user_id) (memoryCollections s)),
           st_requestsCount = length (memoryCollectionRequests s),
           st_storageType = ''memory''\<rparr>
        else
          \<lparr>st_historyCount = length (memoryHistory s),
           st_collectionsCount = length (memoryCollections s),
           st_requestsCount = length (memoryCollectionRequests s),
           st_storageType = ''memory''\<rparr>)"

section \<open>The simplified server\<close>

text \<open>
  The second server file keeps two arrays only; the requests of a collection live in
  the collection's own \<^verbatim>\<open>requests\<close> array, which is undefined until the first request
  is added.
\<close>

record simple_request =
  sr_id :: string
  sr_url :: json
  sr_method :: json
  sr_headers :: json
  sr_body :: json
  sr_params :: json
  sr_name :: json
  sr_created_at :: nat

record simple_collection =
  sc_id :: string
  sc_name :: json
  sc_description :: json
  sc_user_id :: json
  sc_created_at :: nat
  sc_requests :: "simple_request list option"

record simple_store =
  s_memoryHistory :: "history_item list"
  s_memoryCollections :: "simple_collection list"

text \<open>\<^verbatim>\<open>POST /api/history\<close> of the simplified server.\<close>

definition simple_historyItem :: "clock \<Rightarrow> request_body \<Rightarrow> history_item" where
  "simple_historyItem clk b =
     \<lparr>h_id = dec (date_now clk),
      h_url = b_url b,
      h_method = b_method b,
      h_headers = js_or (b_headers b) (JObj []),
      h_body = js_or (b_body b) JNull,
      h_params = js_or (b_params b) (JObj []),
      h_user_id = js_or (b_user_id b) (JStr ''anonymous''),
      h_created_at = new_date clk\<rparr>"

definition simple_post_history ::
  "clock \<Rightarrow> request_body \<Rightarrow> simple_store \<Rightarrow> history_item reply \<times> simple_store" where
  "simple_post_history clk b s =
     (let item = simple_historyItem clk b;
          unshifted = item # s_memoryHistory s
      in (Reply 200 item, s\<lparr>s_memoryHistory := slice0 100 unshifted\<rparr>))"

text \<open>\<^verbatim>\<open>xs.findIndex(p)\<close>; \<open>None\<close> is -1.\<close>

fun findIndex :: "('a \<Rightarrow> bool) \<Rightarrow> 'a list \<Rightarrow> nat option" where
  "findIndex p [] = None"
| "findIndex p (x # xs) =
     (if p x then Some 0 else case findIndex p xs of None \<Rightarrow> None | Some i \<Rightarrow> Some (Suc i))"

text \<open>\<^verbatim>\<open>POST /api/collections/:id/requests\<close> of the simplified server.\<close>

definition simple_request_of :: "clock \<Rightarrow> request_body \<Rightarrow> simple_request" where
  "simple_request_of clk b =
     \<lparr>sr_id = dec (date_now clk),
      sr_url = b_url b,
      sr_method = b_method b,
      sr_headers = js_or (b_headers b) (JObj []),
      sr_body = js_or (b_body b) JNull,
      sr_params = js_or (b_params b) (JObj []),
      sr_name = js_or (b_name b) (JStr (js_String (b_method b) @ '' '' @ js_String (b_url b))),
      sr_created_at = new_date clk\<rparr>"

definition simple_post_collection_request ::
  "clock \<Rightarrow> string \<Rightarrow> request_body \<Rightarrow> simple_store
     \<Rightarrow> (string + simple_request) reply \<times> simple_store" where
  "simple_post_collection_request clk ident b s =
     (case findIndex (\<lambda>c. sc_id c = ident) (s_memoryCollections s) of
        None \<Rightarrow> (Reply 404 (Inl ''Collection not found''), s)
      | Some collectionIndex \<Rightarrow>
          (let request = simple_request_of clk b;
               c = s_memoryCollections s ! collectionIndex;
               requests = (case sc_requests c of None \<Rightarrow> [] | Some rs \<Rightarrow> rs)
           in (Reply 200 (Inr request),
               s\<lparr>s_memoryCollections :=
                    (s_memoryCollections s)
                      [collectionIndex := c\<lparr>sc_requests := Some (request # requests)\<rparr>]\<rparr>)))"

text \<open>The number of requests the simplified server holds, over all collections.\<close>

definition simple_requestsCount :: "simple_store \<Rightarrow> nat" where
  "simple_requestsCount s =
     sum_list (map (\<lambda>c. case sc_requests c of None \<Rightarrow> 0 | Some rs \<Rightarrow> length rs)
                 (s_memoryCollections s))"

section \<open>The proxy\<close>

text \<open>
  \<^verbatim>\<open>Object.entries(v)\<close> for a truthy \<open>v\<close>, which is also what the spread \<^verbatim>\<open>...v\<close>
  copies: the entries of an object, the indexed elements of an array, the indexed
  characters of a string, nothing for a number or a boolean. The spread of
  \<^verbatim>\<open>undefined\<close> or \<^verbatim>\<open>null\<close> copies nothing either.
\<close>

fun object_entries :: "json \<Rightarrow> (string \<times> json) list" where
  "object_entries (JObj kvs) = kvs"
| "object_entries (JArr xs) = zip (map dec [0..<length xs]) xs"
| "object_entries (JStr s) = zip (map dec [0..<length s]) (map (\<lambda>c. JStr [c]) s)"
| "object_entries _ = []"

definition object_keys :: "json \<Rightarrow> string list" where
  "object_keys v = map fst (object_entries v)"

subsection \<open>The query string\<close>

text \<open>
  \<^verbatim>\<open>URLSearchParams\<close> as the list of its pairs. \<^verbatim>\<open>toString()\<close> is the
  \<^verbatim>\<open>application/x-www-form-urlencoded\<close> serializer: in each name and value a space
  becomes \<^verbatim>\<open>+\<close>, the characters \<^verbatim>\<open>*-._\<close>, digits and ASCII letters stay, and every
  other character becomes \<^verbatim>\<open>%XX\<close> for each of its UTF-8 bytes.
\<close>

definition utf8_bytes :: "char \<Rightarrow> nat list" where
  "utf8_bytes c =
     (let n = (of_char c :: nat) in if n < 128 then [n] else [192 + n div 64, 128 + n mod 64])"

definition hex_digit :: "nat \<Rightarrow> char" where
  "hex_digit d = ''0123456789ABCDEF'' ! d"

definition percent_byte :: "nat \<Rightarrow> string" where
  "percent_byte n = [CHR ''%'', hex_digit (n div 16), hex_digit (n mod 16)]"

definition form_keeps :: "nat \<Rightarrow> bool" where
  "form_keeps n =
     (n = 42 \<or> n = 45 \<or> n = 46 \<or> n = 95 \<or> (48 \<le> n \<and> n \<le> 57) \<or> (65 \<le> n \<and> n \<le> 90) \<or>
      (97 \<le> n \<and> n \<le> 122))"

definition form_char :: "char \<Rightarrow> string" where
  "form_char c =
     (let n = (of_char c :: nat) in
      if n = 32 then ''+''
      else if form_keeps n then [c]
      else concat (map percent_byte (utf8_bytes c)))"

definition form_encode :: "string \<Rightarrow> string" where
  "form_encode s = concat (map form_char s)"

definition urlParams_toString :: "(string \<times> string) list \<Rightarrow> string" where
  "urlParams_toString ps =
     intercalate ''&'' (map (\<lambda>kv. form_encode (fst kv) @ ''='' @ form_encode (snd kv)) ps)"

text \<open>
  The \<^verbatim>\<open>forEach\<close> over \<^verbatim>\<open>Object.entries(params)\<close>:
  \<^verbatim>\<open>if (key && value) urlParams.append(key, value)\<close>; \<^verbatim>\<open>append\<close> converts the value
  to a string.
\<close>

definition urlParams_of :: "json \<Rightarrow> (string \<times> string) list" where
  "urlParams_of params =
     foldl (\<lambda>urlParams kv.
              if fst kv \<noteq> [] \<and> truthy (snd kv) then urlParams @ [(fst kv, js_String (snd kv))]
              else urlParams)
       [] (object_entries params)"

definition finalUrl :: "json \<Rightarrow> json \<Rightarrow> json" where
  "finalUrl url params =
     (if truthy params \<and> length (object_keys params) > 0
      then JStr (js_String url @ ''?'' @ urlParams_toString (urlParams_of params))
      else url)"










subsection \<open>The outbound request\<close>

record fetch_options =
  fo_method :: json
  fo_headers :: "string \<rightharpoonup> json"
  fo_redirect :: string
  fo_timeout :: nat
  fo_body :: "string option"

text \<open>The body test reads the \<^verbatim>\<open>method\<close> of the request, not \<^verbatim>\<open>fetchOptions.method\<close>.\<close>

definition fetchOptions :: "request_body \<Rightarrow> fetch_options" where
  "fetchOptions b =
     \<lparr>fo_method = js_or (b_method b) (JStr ''GET''),
      fo_headers = [''Content-Type'' \<mapsto> JStr ''application/json''] ++ map_of (object_entries (b_headers b)),
      fo_redirect = ''follow'',
      fo_timeout = 30000,
      fo_body =
        (if \<not> strict_eq (b_method b) (JStr ''GET'') \<and> \<not> strict_eq (b_method b) (JStr ''HEAD'') \<and>
            truthy (b_body b)
         then Some (JSON_stringify (b_body b)) else None)\<rparr>"

subsection \<open>The response\<close>

text \<open>
  A reply is successful at the boundary when its HTTP status is 2xx; \<^verbatim>\<open>res.json\<close>
  without \<^verbatim>\<open>res.status\<close> sends 200.
\<close>

definition successful :: "'a reply \<Rightarrow> bool" where
  "successful r = (200 \<le> http_status r \<and> http_status r < 300)"

text \<open>
  What \<^verbatim>\<open>fetch\<close> resolves to. \<open>resp_headers\<close> lists the headers as
  \<^verbatim>\<open>response.headers.forEach\<close> enumerates them, names in lower case. The three body
  fields are the outcomes of \<^verbatim>\<open>response.json()\<close>, of \<^verbatim>\<open>response.text()\<close>, and of
  \<^verbatim>\<open>response.text()\<close> called after \<^verbatim>\<open>response.json()\<close> has rejected; \<open>Inl\<close> is the
  message of the error.
\<close>

record response =
  resp_status :: int
  resp_statusText :: string
  resp_headers :: "(string \<times> string) list"
  resp_json :: "string + json"
  resp_text :: "string + string"
  resp_text_after_json :: "string + string"

text \<open>\<^verbatim>\<open>s.includes(p)\<close>\<close>

fun str_includes :: "string \<Rightarrow> string \<Rightarrow> bool" where
  "str_includes [] p = (p = [])"
| "str_includes (c # cs) p = (take (length p) (c # cs) = p \<or> str_includes cs p)"

definition responseBody :: "response \<Rightarrow> string + json" where
  "responseBody r =
     (case map_of (resp_headers r) ''content-type'' of
        Some contentType \<Rightarrow>
          if contentType \<noteq> [] \<and> str_includes contentType ''application/json'' then
            (case resp_json r of
               Inr v \<Rightarrow> Inr v
             | Inl _ \<Rightarrow> map_sum (\<lambda>msg. msg) JStr (resp_text_after_json r))
          else map_sum (\<lambda>msg. msg) JStr (resp_text r)
      | None \<Rightarrow> map_sum (\<lambda>msg. msg) JStr (resp_text r))"

record response_data =
  rd_status :: int
  rd_statusText :: string
  rd_headers :: "(string \<times> string) list"
  rd_body :: json
  rd_time :: int
  rd_size :: nat

record failure_data =
  fd_error :: string
  fd_time :: int
  fd_size :: nat
  fd_status :: int

datatype proxy_doc =
    ErrorDoc string
  | DataDoc response_data
  | FailureDoc failure_data

text \<open>
  What the handler reads from outside: \<^verbatim>\<open>new URL\<close> (\<open>Inl\<close> when it throws),
  \<^verbatim>\<open>fetch\<close> (\<open>Inl\<close> the message of the error it rejects with) and the two reads of
  \<^verbatim>\<open>Date.now()\<close>.
\<close>

record world =
  new_URL :: "json \<Rightarrow> string + string"
  fetch :: "json \<Rightarrow> fetch_options \<Rightarrow> string + response"
  startTime :: int
  endTime :: int

text \<open>The \<^verbatim>\<open>catch\<close> branch of \<^verbatim>\<open>POST /api/proxy\<close>.\<close>

definition proxy_catch :: "string \<Rightarrow> proxy_doc reply" where
  "proxy_catch msg =
     Reply 500 (FailureDoc \<lparr>fd_error = msg, fd_time = 0, fd_size = 0, fd_status = 500\<rparr>)"

text \<open>\<^verbatim>\<open>POST /api/proxy\<close>\<close>

definition proxy :: "world \<Rightarrow> request_body \<Rightarrow> proxy_doc reply" where
  "proxy w b =
     (if \<not> truthy (b_url b) then Reply 400 (ErrorDoc ''URL is required'')
      else if isl (new_URL w (b_url b)) then Reply 400 (ErrorDoc ''Invalid URL format'')
      else
        case fetch w (finalUrl (b_url b) (b_params b)) (fetchOptions b) of
          Inl msg \<Rightarrow> proxy_catch msg
        | Inr r \<Rightarrow>
            (case responseBody r of
               Inl msg \<Rightarrow> proxy_catch msg
             | Inr body \<Rightarrow>
                 Reply 200
                   (DataDoc
                      \<lparr>rd_status = resp_status r,
                       rd_statusText = resp_statusText r,
                       rd_headers = resp_headers r,
                       rd_body = body,
                       rd_time = endTime w - startTime w,
                       rd_size = length (JSON_stringify body)\<rparr>)))"

section \<open>Example inputs\<close>

text \<open>A request whose JSON body is \<^verbatim>\<open>{}\<close>: every field reads as \<^verbatim>\<open>undefined\<close>.\<close>

definition empty_body :: request_body where
  "empty_body =
     \<lparr>b_url = JUndefined, b_method = JUndefined, b_headers = JUndefined, b_body = JUndefined,
      b_params = JUndefined, b_user_id = JUndefined, b_name = JUndefined,
      b_description = JUndefined\<rparr>"

text \<open>A clock whose two reads fall in the same millisecond.\<close>

definition tick :: "nat \<Rightarrow> clock" where
  "tick t = \<lparr>date_now = t, new_date = t\<rparr>"

text \<open>\<^verbatim>\<open>{ url: "https://x", method: "POST", user_id: "u1" }\<close>, saved 101 times.\<close>

definition save_u1 :: request_body where
  "save_u1 = empty_body\<lparr>b_url := JStr ''https://x'', b_method := JStr ''POST'', b_user_id := JStr ''u1''\<rparr>"

definition calls101 :: "(clock \<times> request_body) list" where
  "calls101 = map (\<lambda>t. (tick t, save_u1)) [0..<101]"

text \<open>\<^verbatim>\<open>{ name: "  " }\<close>\<close>

definition blank_name :: request_body where
  "blank_name = empty_body\<lparr>b_name := JStr ''  ''\<rparr>"

text \<open>
  A store with the collection \<^verbatim>\<open>"7"\<close> of user \<^verbatim>\<open>"u1"\<close> and two requests, one in that
  collection and one in the collection \<^verbatim>\<open>"8"\<close>.
\<close>

definition collection7 :: collection where
  "collection7 =
     \<lparr>c_id = ''7'', c_name = JStr ''mine'', c_description = JUndefined, c_user_id = JStr ''u1'',
      c_created_at = 7\<rparr>"

definition request_in :: "string \<Rightarrow> nat \<Rightarrow> collection_request" where
  "request_in ident t =
     request_of (tick t) ident (empty_body\<lparr>b_url := JStr ''https://x/a'', b_method := JStr ''GET''\<rparr>)
       (JStr ''GET /a'')"

definition store7 :: store where
  "store7 =
     \<lparr>memoryHistory = [], memoryCollections = [collection7],
      memoryCollectionRequests = [request_in ''8'' 10, request_in ''7'' 9]\<rparr>"




text \<open>
  \<^verbatim>\<open>{ url: "https://example.com/get", method: "GET" }\<close> relayed while the target
  refuses the connection.
\<close>

definition get_example :: request_body where
  "get_example = empty_body\<lparr>b_url := JStr ''https://example.com/get'', b_method := JStr ''GET''\<rparr>"

definition down_world :: world where
  "down_world =
     \<lparr>new_URL = (\<lambda>u. if u = JStr ''https://example.com/get'' then Inr ''/get'' else Inl ''Invalid URL''),
      fetch = (\<lambda>u opts. Inl ''connect ECONNREFUSED''),
      startTime = 0, endTime = 0\<rparr>"

text \<open>
  \<^verbatim>\<open>{ url: "https://x/a", method: "GET" }\<close>, with and without a name, and a
  \<^verbatim>\<open>new URL\<close> that knows this one address.
\<close>

definition get_a :: request_body where
  "get_a = empty_body\<lparr>b_url := JStr ''https://x/a'', b_method := JStr ''GET''\<rparr>"

definition named :: "string \<Rightarrow> request_body" where
  "named nm = get_a\<lparr>b_name := JStr nm\<rparr>"

definition example_URL :: "json \<Rightarrow> string + string" where
  "example_URL u = (if u = JStr ''https://x/a'' then Inr ''/a'' else Inl ''Invalid URL'')"

text \<open>
  From the empty store: the collection \<^verbatim>\<open>mine\<close> of \<^verbatim>\<open>u1\<close> is created at time 7 and
  gets the id \<^verbatim>\<open>"7"\<close>, then the requests \<^verbatim>\<open>first\<close> and \<^verbatim>\<open>second\<close> are added to
  it, in this order.
\<close>

definition create_mine :: request_body where
  "create_mine = empty_body\<lparr>b_name := JStr ''mine'', b_user_id := JStr ''u1''\<rparr>"

definition two_requests_store :: store where
  "two_requests_store =
     snd (post_collection_request example_URL (tick 9) ''7'' (named ''second'')
       (snd (post_collection_request example_URL (tick 8) ''7'' (named ''first'')
         (snd (post_collections (tick 7) create_mine empty_store)))))"

text \<open>\<^verbatim>\<open>{ url: "https://x/a", body: { a: 1 } }\<close>: a body and no method.\<close>

definition body_no_method :: request_body where
  "body_no_method = empty_body\<lparr>b_url := JStr ''https://x/a'', b_body := JObj [(''a'', JNum 1)]\<rparr>"

section \<open>Properties\<close>

lemma slice0_100: "slice0 100 xs = take 100 xs"
  by (simp add: slice0_def)

lemma take_Cons_take: "take n (x # take n xs) = take n (x # xs)"
  by (cases n) simp_all

lemma take_append_take: "take n (ys @ take n xs) = take n (ys @ xs)"
  by (simp add: min_def)

lemma memoryHistory_post_history:
  "memoryHistory (snd (post_history clk b s)) = take 100 (historyItem clk b # memoryHistory s)"
  by (simp add: post_history_def Let_def slice0_100)

lemma memoryHistory_post_history_all:
  "memoryHistory (post_history_all cs s) =
     (if cs = [] then memoryHistory s
      else take 100 (rev (map (\<lambda>c. historyItem (fst c) (snd c)) cs) @ memoryHistory s))"
proof (induction cs arbitrary: s)
  case Nil
  show ?case by simp
next
  case (Cons c cs)
  show ?case
  proof (cases "cs = []")
    case True
    then show ?thesis by (simp add: memoryHistory_post_history)
  next
    case False
    define s' where "s' = snd (post_history (fst c) (snd c) s)"
    define items where "items = rev (map (\<lambda>c. historyItem (fst c) (snd c)) cs)"
    have step: "memoryHistory s' = take 100 (historyItem (fst c) (snd c) # memoryHistory s)"
      unfolding s'_def by (rule memoryHistory_post_history)
    have "memoryHistory (post_history_all (c # cs) s) = memoryHistory (post_history_all cs s')"
      by (simp add: s'_def)
    also have "\<dots> = take 100 (items @ memoryHistory s')"
      using Cons.IH [of s'] False by (simp add: items_def)
    also have "\<dots> = take 100 (items @ historyItem (fst c) (snd c) # memoryHistory s)"
      unfolding step by (rule take_append_take)
    finally show ?thesis
      by (simp add: items_def)
  qed
qed

lemma take_all_of_prefix: "n \<le> length xs \<Longrightarrow> take n (xs @ ys) = take n xs"
  by simp

lemma rev_map_last: "cs \<noteq> [] \<Longrightarrow> rev (map f cs) = f (last cs) # rev (map f (butlast cs))"
  by (induction cs rule: rev_induct) simp_all


lemma strict_eq_JStr: "strict_eq m (JStr g) = (m = JStr g)"
  by (cases m) simp_all

lemma findIndex_None: "findIndex p xs = None \<longleftrightarrow> (\<forall>x\<in>set xs. \<not> p x)"
  by (induction xs) (auto split: option.splits)

lemma all_ws_trim: "\<forall>c\<in>set name. is_ws c \<Longrightarrow> trim name = []"
proof -
  assume "\<forall>c\<in>set name. is_ws c"
  then have d: "dropWhile is_ws name = []"
    by simp
  show ?thesis
    unfolding trim_def d by simp
qed

lemma s_memoryHistory_simple_post_history:
  "s_memoryHistory (snd (simple_post_history clk b s)) =
     take 100 (simple_historyItem clk b # s_memoryHistory s)"
  by (simp add: simple_post_history_def Let_def slice0_100)

subsection \<open>The history cap\<close>

text \<open>
  C4. After more than 100 calls of \<^verbatim>\<open>POST /api/history\<close> in memory mode, whatever the
  store held before and whoever the users are, \<^verbatim>\<open>memoryHistory\<close> holds the items of the
  100 latest calls, newest first: at most 100 items, the older ones evicted, and the item
  of the last call present.
\<close>

theorem history_capped_at_100:
  assumes "100 < length cs"
  shows "memoryHistory (post_history_all cs s) =
           take 100 (rev (map (\<lambda>c. historyItem (fst c) (snd c)) cs)) \<and>
         length (memoryHistory (post_history_all cs s)) \<le> 100 \<and>
         historyItem (fst (last cs)) (snd (last cs)) \<in> set (memoryHistory (post_history_all cs s))"
proof -
  define items where "items = rev (map (\<lambda>c. historyItem (fst c) (snd c)) cs)"
  from assms have ne: "cs \<noteq> []" by auto
  have len: "100 \<le> length items"
    using assms by (simp add: items_def)
  have "memoryHistory (post_history_all cs s) = take 100 (items @ memoryHistory s)"
    using ne by (simp add: memoryHistory_post_history_all items_def)
  also have "\<dots> = take 100 items"
    using len by (rule take_all_of_prefix)
  finally have eq: "memoryHistory (post_history_all cs s) = take 100 items" .
  have "items = historyItem (fst (last cs)) (snd (last cs)) #
                  rev (map (\<lambda>c. historyItem (fst c) (snd c)) (butlast cs))"
    unfolding items_def using ne by (rule rev_map_last)
  then have "historyItem (fst (last cs)) (snd (last cs)) \<in> set (take 100 items)"
    by simp
  with eq show ?thesis
    by (simp add: items_def)
qed

theorem history_capped_at_100_witness:
  "100 < length calls101 \<and>
   memoryHistory (post_history_all calls101 empty_store) =
     take 100 (rev (map (\<lambda>c. historyItem (fst c) (snd c)) calls101)) \<and>
   length (memoryHistory (post_history_all calls101 empty_store)) \<le> 100 \<and>
   historyItem (fst (last calls101)) (snd (last calls101))
     \<in> set (memoryHistory (post_history_all calls101 empty_store))"
proof -
  have h: "100 < length calls101"
    by (simp add: calls101_def)
  from h history_capped_at_100 [OF h, of empty_store] show ?thesis
    by (intro conjI) (elim conjE, assumption)+
qed

subsection \<open>Creating a collection\<close>

text \<open>
  C8. \<^verbatim>\<open>POST /api/collections\<close> with a name that is the empty string or consists of
  white space only answers 400 with \<^verbatim>\<open>Collection name is required\<close> and leaves the
  store as it was, so \<^verbatim>\<open>GET /api/collections\<close> answers as before.
\<close>

theorem create_collection_blank_name:
  assumes "b_name b = JStr name" and "list_all is_ws name"
  shows "post_collections clk b s = (Reply 400 (Inl ''Collection name is required''), s) \<and>
         get_collections user_id (snd (post_collections clk b s)) = get_collections user_id s"
proof -
  have "trim name = []"
    using assms(2) by (simp only: list_all_iff all_ws_trim)
  then have "post_collections clk b s = (Reply 400 (Inl ''Collection name is required''), s)"
    using assms(1) by (simp add: post_collections_def)
  then show ?thesis by simp
qed

theorem create_collection_blank_name_witness:
  "b_name blank_name = JStr ''  '' \<and> list_all is_ws ''  '' \<and>
   post_collections (tick 5) blank_name empty_store =
     (Reply 400 (Inl ''Collection name is required''), empty_store) \<and>
   get_collections (JStr ''u1'') (snd (post_collections (tick 5) blank_name empty_store)) =
     get_collections (JStr ''u1'') empty_store"
proof -
  have h1: "b_name blank_name = JStr ''  ''"
    by (simp add: blank_name_def empty_body_def)
  have h2: "list_all is_ws ''  ''"
    by (simp add: is_ws_def)
  from h1 h2 create_collection_blank_name [OF h1 h2, of "tick 5" empty_store "JStr ''u1''"]
  show ?thesis
    by (intro conjI) (elim conjE, assumption)+
qed

subsection \<open>Deleting a collection\<close>



subsection \<open>The query string of the relay\<close>


































subsection \<open>Listing the history\<close>












subsection \<open>A relay whose fetch fails\<close>

lemma proxy_missing_url: "\<not> truthy (b_url b) \<Longrightarrow> proxy w b = Reply 400 (ErrorDoc ''URL is required'')"
  by (simp add: proxy_def)

lemma proxy_invalid_url:
  "truthy (b_url b) \<Longrightarrow> new_URL w (b_url b) = Inl e \<Longrightarrow>
   proxy w b = Reply 400 (ErrorDoc ''Invalid URL format'')"
  by (simp add: proxy_def)

text \<open>
  C5, amended. When the URL is present and parses and \<^verbatim>\<open>fetch\<close> rejects,
  \<^verbatim>\<open>POST /api/proxy\<close> answers with HTTP status 500 and the document
  \<^verbatim>\<open>{ error, time: 0, size: 0, status: 500 }\<close> carrying the message of the error; the
  reply is not a successful one. A missing or unparsable URL is answered with 400
  (\<open>proxy_missing_url\<close>, \<open>proxy_invalid_url\<close>).
\<close>

theorem proxy_fetch_failure:
  assumes "truthy (b_url b)"
    and "new_URL w (b_url b) = Inr pathname"
    and "fetch w (finalUrl (b_url b) (b_params b)) (fetchOptions b) = Inl msg"
  shows "proxy w b =
           Reply 500 (FailureDoc \<lparr>fd_error = msg, fd_time = 0, fd_size = 0, fd_status = 500\<rparr>) \<and>
         \<not> successful (proxy w b)"
  using assms by (simp add: proxy_def proxy_catch_def successful_def)

theorem proxy_fetch_failure_witness:
  "truthy (b_url get_example) \<and> new_URL down_world (b_url get_example) = Inr ''/get'' \<and>
   fetch down_world (finalUrl (b_url get_example) (b_params get_example)) (fetchOptions get_example) =
     Inl ''connect ECONNREFUSED'' \<and>
   proxy down_world get_example =
     Reply 500
       (FailureDoc \<lparr>fd_error = ''connect ECONNREFUSED'', fd_time = 0, fd_size = 0, fd_status = 500\<rparr>)"
proof -
  have h1: "truthy (b_url get_example)"
    by (simp add: get_example_def empty_body_def)
  have h2: "new_URL down_world (b_url get_example) = Inr ''/get''"
    by (simp add: get_example_def empty_body_def down_world_def)
  have h3: "fetch down_world (finalUrl (b_url get_example) (b_params get_example))
              (fetchOptions get_example) = Inl ''connect ECONNREFUSED''"
    by (simp add: down_world_def)
  from proxy_fetch_failure [OF h1 h2 h3]
  have "proxy down_world get_example =
     Reply 500
       (FailureDoc \<lparr>fd_error = ''connect ECONNREFUSED'', fd_time = 0, fd_size = 0, fd_status = 500\<rparr>)"
    by (rule conjunct1)
  with h1 h2 h3 show ?thesis
    by (intro conjI)
qed

text \<open>
  C5 as stated fails: when the target refuses the connection the reply has HTTP status
  500, so it is not a successful reply.
\<close>

theorem proxy_fetch_failure_not_successful_counterexample:
  "\<not> successful (proxy down_world get_example)"
  by (simp add: proxy_def proxy_catch_def successful_def get_example_def empty_body_def
      down_world_def)

subsection \<open>Adding a request to a collection\<close>

lemma post_collection_request_never_404:
  "http_status (fst (post_collection_request url_path clk ident b s)) \<noteq> 404"
  by (simp add: post_collection_request_def split: sum.splits)

lemma post_collection_request_named:
  "truthy (b_name b) \<Longrightarrow>
   post_collection_request url_path clk ident b s =
     (Reply 200 (Inr (request_of clk ident b (b_name b))),
      s\<lparr>memoryCollectionRequests := request_of clk ident b (b_name b) # memoryCollectionRequests s\<rparr>)"
  by (simp add: post_collection_request_def)

lemma simple_post_collection_request_missing:
  "\<forall>c\<in>set (s_memoryCollections s). sc_id c \<noteq> ident \<Longrightarrow>
   simple_post_collection_request clk ident b s = (Reply 404 (Inl ''Collection not found''), s)"
proof -
  assume "\<forall>c\<in>set (s_memoryCollections s). sc_id c \<noteq> ident"
  then have "findIndex (\<lambda>c. sc_id c = ident) (s_memoryCollections s) = None"
    by (simp add: findIndex_None)
  then show ?thesis
    by (simp add: simple_post_collection_request_def)
qed

text \<open>
  C1 fails on the main server in memory mode: from the empty store, where no collection
  exists, \<^verbatim>\<open>POST /api/collections/missing-id/requests\<close> answers 200 with the new
  request and stores it, and \<^verbatim>\<open>requestsCount\<close> of \<^verbatim>\<open>GET /api/stats\<close> goes from 0
  to 1. The handler never answers 404 (\<open>post_collection_request_never_404\<close>); the
  simplified server does (\<open>simple_post_collection_request_missing\<close>).
\<close>

theorem add_request_to_missing_collection:
  "memoryCollections empty_store = [] \<and>
   post_collection_request example_URL (tick 9) ''missing-id'' get_a empty_store =
     (Reply 200 (Inr (request_in ''missing-id'' 9)),
      empty_store\<lparr>memoryCollectionRequests := [request_in ''missing-id'' 9]\<rparr>) \<and>
   st_requestsCount (sent (get_stats JUndefined empty_store)) = 0 \<and>
   st_requestsCount
     (sent (get_stats JUndefined
        (snd (post_collection_request example_URL (tick 9) ''missing-id'' get_a empty_store)))) = 1"
  by (simp add: post_collection_request_def example_URL_def get_a_def empty_body_def
      empty_store_def request_in_def request_of_def get_stats_def)

subsection \<open>Listing the requests of a collection\<close>

lemma get_collection_requests_after_post:
  "truthy (b_name b) \<Longrightarrow>
   sent (get_collection_requests ident (snd (post_collection_request url_path clk ident b s))) =
     request_of clk ident b (b_name b) # sent (get_collection_requests ident s)"
  by (simp add: post_collection_request_named get_collection_requests_def request_of_def)

lemma dec_7: "dec 7 = ''7''"
  by (simp add: dec.simps digit_char_def)

text \<open>
  C2 fails in memory mode: after \<^verbatim>\<open>first\<close> and then \<^verbatim>\<open>second\<close> have been added to
  the collection \<^verbatim>\<open>"7"\<close>, \<^verbatim>\<open>GET /api/collections/7/requests\<close> lists \<^verbatim>\<open>second\<close>
  before \<^verbatim>\<open>first\<close>: each request is put in front
  (\<open>get_collection_requests_after_post\<close>).
\<close>

theorem list_collection_requests_newest_first:
  "map c_id (memoryCollections two_requests_store) = [''7''] \<and>
   map r_name (sent (get_collection_requests ''7'' two_requests_store)) =
     [JStr ''second'', JStr ''first'']"
  by (simp add: two_requests_store_def post_collection_request_def post_collections_def
      collection_of_def create_mine_def named_def get_a_def empty_body_def empty_store_def
      request_of_def get_collection_requests_def tick_def dec_7 trim_def is_ws_def)

subsection \<open>Clearing the data of a user\<close>

lemma find_filter_Some: "find p (filter q xs) = Some x \<Longrightarrow> q x"
  by (induction xs) (simp_all split: if_splits)

lemma delete_clear_keeps_requests:
  assumes "truthy user_id"
  shows "memoryCollectionRequests (snd (delete_clear user_id s)) = memoryCollectionRequests s"
proof -
  define cs where "cs = filter (\<lambda>item. \<not> strict_eq (c_user_id item) user_id) (memoryCollections s)"
  have keep: "(case find (\<lambda>c. c_id c = r_collection_id item) cs of
                 None \<Rightarrow> True
               | Some collection \<Rightarrow> \<not> strict_eq (c_user_id collection) user_id)"
    for item :: collection_request
    unfolding cs_def by (auto split: option.splits dest: find_filter_Some)
  have "memoryCollectionRequests (snd (delete_clear user_id s)) =
          filter (\<lambda>item. case find (\<lambda>c. c_id c = r_collection_id item) cs of
                            None \<Rightarrow> True
                          | Some collection \<Rightarrow> \<not> strict_eq (c_user_id collection) user_id)
            (memoryCollectionRequests s)"
    using assms by (simp add: delete_clear_def Let_def cs_def)
  also have "\<dots> = memoryCollectionRequests s"
    by (rule filter_True) (simp add: keep)
  finally show ?thesis .
qed

text \<open>
  C3 fails on the requests: \<^verbatim>\<open>DELETE /api/clear?user_id=u1\<close> on a store holding the
  collection \<^verbatim>\<open>"7"\<close> of \<^verbatim>\<open>u1\<close> and a request in it removes the collection and keeps
  the request. The filter on the requests looks the parent up among the collections
  that are left, so no request is ever removed (\<open>delete_clear_keeps_requests\<close>).
\<close>

theorem clear_user_keeps_requests:
  "c_user_id collection7 = JStr ''u1'' \<and>
   r_collection_id (request_in ''7'' 9) = c_id collection7 \<and>
   memoryCollections (snd (delete_clear (JStr ''u1'') store7)) = [] \<and>
   memoryCollectionRequests (snd (delete_clear (JStr ''u1'') store7)) =
     [request_in ''8'' 10, request_in ''7'' 9]"
  by (simp add: delete_clear_def Let_def store7_def collection7_def request_in_def request_of_def)

subsection \<open>The body of the outbound request\<close>

lemma fetchOptions_body_supplied_method:
  assumes "truthy (b_method b)"
  shows "(fo_body (fetchOptions b) \<noteq> None) =
           (fo_method (fetchOptions b) \<noteq> JStr ''GET'' \<and> fo_method (fetchOptions b) \<noteq> JStr ''HEAD'' \<and>
            truthy (b_body b))"
    and "fo_body (fetchOptions b) \<noteq> None \<Longrightarrow>
           fo_body (fetchOptions b) = Some (JSON_stringify (b_body b))"
  using assms by (simp_all add: fetchOptions_def js_or_def strict_eq_JStr split: if_splits)

text \<open>
  C6 fails when the method is absent: for \<^verbatim>\<open>{ url, body: { a: 1 } }\<close> the outbound
  method is the default \<^verbatim>\<open>GET\<close> and the body \<^verbatim>\<open>{"a":1}\<close> is attached all the same.
  With a method supplied the body is attached exactly when the method is neither
  \<^verbatim>\<open>GET\<close> nor \<^verbatim>\<open>HEAD\<close> and the body is truthy, as JSON text
  (\<open>fetchOptions_body_supplied_method\<close>).
\<close>

theorem body_attached_to_default_get:
  "b_method body_no_method = JUndefined \<and>
   fo_method (fetchOptions body_no_method) = JStr ''GET'' \<and>
   fo_body (fetchOptions body_no_method) =
     Some [CHR ''{'', CHR 0x22, CHR ''a'', CHR 0x22, CHR '':'', CHR ''1'', CHR ''}'']"
  by (simp add: fetchOptions_def body_no_method_def empty_body_def js_or_def quote_def
      quote_char_def dec.simps digit_char_def)

end
